theory Spec2Isabelle
  imports Main
begin

section \<open>Python values, errors and text\<close>

text \<open>
  The compiler of \<^verbatim>\<open>models.py\<close> assembles program text by string concatenation
  and signals every failure by a Python exception. Exceptions are values of type
  \<open>error\<close>; a computation that may raise returns \<open>error + 'a\<close>, with \<open>Inl\<close>
  for the exception.
\<close>

datatype error =
    KeyError
  | IndexError
  | TypeError
  | ValueError
  | AttributeError
  | NotImplementedError
  | UnboundLocalError
  | JSONDecodeError
  | FieldError
  | DoesNotExist
  | MultipleObjectsReturned
  | UnicodeEncodeError

text \<open>
  A document as \<^verbatim>\<open>json.loads\<close> returns it. Numbers are integers here (a float
  behaves like an integer in every operation the compiler applies to a document:
  both reject subscripting and iteration with \<^verbatim>\<open>TypeError\<close>). Strings are byte
  lists, so the model speaks about ASCII text.
\<close>

datatype json =
    JNull
  | JBool bool
  | JNum int
  | JStr string
  | JArr "json list"
  | JObj "(string \<times> json) list"

text \<open>The scalar values that are rendered into program text by an f-string.\<close>

datatype pyval = PNone | PBool bool | PInt int | PStr string

definition nl :: char where
  "nl = CHR 0x0A"

definition tab :: char where
  "tab = CHR 0x09"

definition digit_char :: "nat \<Rightarrow> char" where
  "digit_char d = ''0123456789'' ! d"

function show_nat :: "nat \<Rightarrow> string" where
  "show_nat n = (if n < 10 then [digit_char n] else show_nat (n div 10) @ [digit_char (n mod 10)])"
  by pat_completeness auto
termination
  by (relation "measure id") auto

declare show_nat.simps [simp del]

text \<open>A scalar inside an f-string: the text \<^verbatim>\<open>str(v)\<close>.\<close>

fun py_str :: "pyval \<Rightarrow> string" where
  "py_str PNone = ''None''"
| "py_str (PBool b) = (if b then ''True'' else ''False'')"
| "py_str (PInt i) = (if i < 0 then ''-'' @ show_nat (nat (- i)) else show_nat (nat i))"
| "py_str (PStr s) = s"

text \<open>A nullable text field inside an f-string: \<^verbatim>\<open>None\<close> prints as \<^verbatim>\<open>None\<close>.\<close>

fun str_opt :: "string option \<Rightarrow> string" where
  "str_opt None = ''None''"
| "str_opt (Some s) = s"

text \<open>\<^verbatim>\<open>str.lower()\<close> on ASCII text.\<close>

definition lower_char :: "char \<Rightarrow> char" where
  "lower_char c =
     (case map_of (zip ''ABCDEFGHIJKLMNOPQRSTUVWXYZ'' ''abcdefghijklmnopqrstuvwxyz'') c of
        None \<Rightarrow> c
      | Some l \<Rightarrow> l)"

definition lower :: "string \<Rightarrow> string" where
  "lower s = map lower_char s"

text \<open>\<^verbatim>\<open>doc[key]\<close> for a string key: only a dict accepts it.\<close>

fun getitem_key :: "json \<Rightarrow> string \<Rightarrow> error + json" where
  "getitem_key (JObj kvs) k = (case map_of kvs k of None \<Rightarrow> Inl KeyError | Some v \<Rightarrow> Inr v)"
| "getitem_key _ k = Inl TypeError"

text \<open>
  \<^verbatim>\<open>v[0]\<close>: the first element of a list, the first character of a string; a decoded
  dict has string keys only, so the key \<open>0\<close> is missing.
\<close>

fun getitem0 :: "json \<Rightarrow> error + json" where
  "getitem0 (JArr []) = Inl IndexError"
| "getitem0 (JArr (x # xs)) = Inr x"
| "getitem0 (JStr []) = Inl IndexError"
| "getitem0 (JStr (c # cs)) = Inr (JStr [c])"
| "getitem0 (JObj kvs) = Inl KeyError"
| "getitem0 _ = Inl TypeError"

text \<open>\<^verbatim>\<open>for x in v\<close>: the elements of a list, the characters of a string, the keys of a dict.\<close>

fun iter_json :: "json \<Rightarrow> error + json list" where
  "iter_json (JArr xs) = Inr xs"
| "iter_json (JStr s) = Inr (map (\<lambda>c. JStr [c]) s)"
| "iter_json (JObj kvs) = Inr (map (\<lambda>kv. JStr (fst kv)) kvs)"
| "iter_json _ = Inl TypeError"

section \<open>Global constants\<close>

text \<open>The table \<^verbatim>\<open>imports\<close> of the source is \<open>imports_table\<close> here.\<close>

definition pytorch :: string where
  "pytorch = ''pytorch''"

definition pennylane :: string where
  "pennylane = ''pennylane''"

definition tensorflow :: string where
  "tensorflow = ''tensorflow''"

definition imports_table :: "string \<rightharpoonup> string" where
  "imports_table = [pytorch \<mapsto> ''import torch'' @ [nl] @ ''import torch.nn as nn'']"

definition activations :: "string \<rightharpoonup> (string \<rightharpoonup> string)" where
  "activations = [pytorch \<mapsto> [''relu'' \<mapsto> ''nn.ReLu()'']]"

section \<open>Layer\<close>

text \<open>
  The fields of the \<^verbatim>\<open>Layer\<close> model. \<open>layer_parameters\<close> is the outcome of
  \<^verbatim>\<open>json.loads(self.parameters)\<close>: \<open>None\<close> when the stored text is not JSON
  (\<^verbatim>\<open>JSONDecodeError\<close>). The three syntax fields are nullable. The class body
  assigns \<^verbatim>\<open>store\<close> twice, first a field and then the method, so the attribute
  is the method.
\<close>

record layer =
  layer_id :: string
  layer_name :: string
  layer_parameters :: "json option"
  layer_pytorch :: "string option"
  layer_pennylane :: "string option"
  layer_tensorflow :: "string option"

text \<open>\<^verbatim>\<open>[parameter[0] for parameter in ...]\<close>\<close>

fun first_components :: "json list \<Rightarrow> error + json list" where
  "first_components [] = Inr []"
| "first_components (p # ps) =
     (case getitem0 p of
        Inl e \<Rightarrow> Inl e
      | Inr x \<Rightarrow> (case first_components ps of Inl e \<Rightarrow> Inl e | Inr xs \<Rightarrow> Inr (x # xs)))"

text \<open>Line 55 of \<^verbatim>\<open>Layer.construct\<close>: the whitelist of the backend \<open>mode\<close>.\<close>

definition possible_parameters :: "layer \<Rightarrow> string \<Rightarrow> error + json list" where
  "possible_parameters self mode =
     (case layer_parameters self of
        None \<Rightarrow> Inl JSONDecodeError
      | Some doc \<Rightarrow>
          (case getitem_key doc mode of
             Inl e \<Rightarrow> Inl e
           | Inr sch \<Rightarrow>
               (case iter_json sch of Inl e \<Rightarrow> Inl e | Inr ps \<Rightarrow> first_components ps)))"

text \<open>Lines 57 to 60: the opening of the expression, chosen by \<open>mode\<close>.\<close>

definition construct_head :: "layer \<Rightarrow> string \<Rightarrow> error + string" where
  "construct_head self mode =
     (if mode = pytorch then Inr (str_opt (layer_pytorch self) @ ''('')
      else if mode = tensorflow then Inr (str_opt (layer_pennylane self) @ ''('')
      else if mode = tensorflow then Inr (str_opt (layer_tensorflow self) @ ''('')
      else Inl ValueError)"

text \<open>
  Lines 62 to 64: the loop over \<^verbatim>\<open>parameters.items()\<close>, a dict in insertion order,
  here an association list. A key is a string; it is in the whitelist when the whitelist
  holds an equal string.
\<close>

fun bind_parameters :: "json list \<Rightarrow> (string \<times> pyval) list \<Rightarrow> string \<Rightarrow> string" where
  "bind_parameters possible [] layer = layer"
| "bind_parameters possible ((parameter, val) # rest) layer =
     bind_parameters possible rest
       (if JStr parameter \<in> set possible
        then layer @ parameter @ ''='' @ py_str val @ '',''
        else layer)"

definition Layer_construct :: "layer \<Rightarrow> (string \<times> pyval) list \<Rightarrow> string \<Rightarrow> error + string" where
  "Layer_construct self parameters mode =
     (case possible_parameters self mode of
        Inl e \<Rightarrow> Inl e
      | Inr possible \<Rightarrow>
          (case construct_head self mode of
             Inl e \<Rightarrow> Inl e
           | Inr layer \<Rightarrow> Inr (bind_parameters possible parameters layer @ '')'')))"

text \<open>\<^verbatim>\<open>Layer.store\<close> raises unconditionally.\<close>

definition Layer_store :: "layer \<Rightarrow> error + string" where
  "Layer_store self = Inl NotImplementedError"

section \<open>Network\<close>

text \<open>
  An input edge of the graph: \<^verbatim>\<open>None\<close> for the external input, or a pair
  \<^verbatim>\<open>(layer, activation)\<close> whose second component may be \<^verbatim>\<open>None\<close>. The first
  component is only ever rendered into text, so it is any scalar.
\<close>

type_synonym edge = "(pyval \<times> string option) option"

text \<open>
  The fields of the \<^verbatim>\<open>Network\<close> model. \<^verbatim>\<open>construct\<close> iterates \<^verbatim>\<open>self.layers\<close>
  as a sequence of pairs \<^verbatim>\<open>(layer_type, parameters)\<close> and \<^verbatim>\<open>self.graph\<close> as a
  sequence of edge sequences; the record holds them in that shape. The class declares no
  attribute \<^verbatim>\<open>interpreter_path\<close>: it exists only on an instance that was given one,
  and \<open>None\<close> stands for its absence.
\<close>

record network =
  net_id :: string
  net_name :: string
  net_type :: string
  net_graph :: "edge list list"
  net_layers :: "(string \<times> (string \<times> pyval) list) list"
  net_loss :: "string option"
  net_weights :: "string option"
  interpreter_path :: "string option"

text \<open>
  \<^verbatim>\<open>network_path\<close> is a class attribute, computed once in the class body, where the
  name \<^verbatim>\<open>id\<close> is the field object assigned a few statements earlier. Its three
  ingredients come from the environment: the directory of the module, \<^verbatim>\<open>os.sep\<close>
  and the text of the field object. Read through an instance it is the same value.
\<close>

definition network_path :: "string \<Rightarrow> string \<Rightarrow> string \<Rightarrow> network \<Rightarrow> string" where
  "network_path parent sep field_text self =
     parent @ sep @ ''networks'' @ sep @ field_text @ ''.py''"

text \<open>
  Line 137: \<^verbatim>\<open>Layer.objects.get(type=layer_type)\<close>, the query of the record store by
  one keyword. The keyword has to name a field of the model, or the query raises
  \<^verbatim>\<open>FieldError\<close> whatever the value and the stored rows. The fields of
  \<^verbatim>\<open>Layer\<close> are those of lines 38 to 43; the field \<^verbatim>\<open>store\<close> of line 37 is
  rebound to the method of line 82. A query by a field returns the one row that matches
  and raises when none or several do. The record holds the decoded parameters and not
  their text, so a query by \<^verbatim>\<open>parameters\<close> finds no row here; the source makes none.
\<close>

definition layer_fields :: "string list" where
  "layer_fields = [''parameters'', ''name'', ''pytorch'', ''pennylane'', ''tensorflow'', ''id'']"

definition field_value :: "layer \<Rightarrow> string \<Rightarrow> string option" where
  "field_value row keyword =
     (if keyword = ''name'' then Some (layer_name row)
      else if keyword = ''id'' then Some (layer_id row)
      else if keyword = ''pytorch'' then layer_pytorch row
      else if keyword = ''pennylane'' then layer_pennylane row
      else if keyword = ''tensorflow'' then layer_tensorflow row
      else None)"

definition Layer_objects_get :: "layer list \<Rightarrow> string \<Rightarrow> string \<Rightarrow> error + layer" where
  "Layer_objects_get table keyword v =
     (if keyword \<notin> set layer_fields then Inl FieldError
      else (case filter (\<lambda>row. field_value row keyword = Some v) table of
              [] \<Rightarrow> Inl DoesNotExist
            | [row] \<Rightarrow> Inr row
            | _ \<Rightarrow> Inl MultipleObjectsReturned))"

text \<open>
  Line 138 tests the object for truth. A model instance defines neither
  \<^verbatim>\<open>__bool__\<close> nor \<^verbatim>\<open>__len__\<close>, so it is true.
\<close>

definition truthy :: "layer \<Rightarrow> bool" where
  "truthy row = True"

text \<open>
  Lines 135 to 139. The loop variable \<^verbatim>\<open>i\<close> is a local of \<^verbatim>\<open>construct\<close>
  shared with the second loop and read after it, so every loop carries it along:
  \<open>None\<close> while it is unbound.
\<close>

fun layers_loop ::
  "layer list \<Rightarrow> string \<Rightarrow> nat \<Rightarrow> (string \<times> (string \<times> pyval) list) list \<Rightarrow>
   string \<times> nat option \<Rightarrow> error + (string \<times> nat option)" where
  "layers_loop table ty i [] st = Inr st"
| "layers_loop table ty i ((layer_type, parameters) # rest) (layers, iv) =
     (case Layer_objects_get table ''type'' layer_type of
        Inl e \<Rightarrow> Inl e
      | Inr layer \<Rightarrow>
          if \<not> truthy layer then Inl ValueError
          else
          (case Layer_construct layer parameters (lower ty) of
             Inl e \<Rightarrow> Inl e
           | Inr decl \<Rightarrow>
               (case Layer_store layer of
                  Inl e \<Rightarrow> Inl e
                | Inr st \<Rightarrow>
                    layers_loop table ty (Suc i) rest
                      (layers @ [nl, tab, tab] @ ''self.layer_'' @ show_nat i @ '' = '' @ decl
                         @ [nl, tab, tab] @ ''self.layer_'' @ show_nat i @ ''_store = '' @ st,
                       Some i))))"

text \<open>Lines 133 to 140: the preamble, the class header and the declarations.\<close>

definition declaration_block :: "layer list \<Rightarrow> network \<Rightarrow> error + (string \<times> nat option)" where
  "declaration_block table self =
     (case imports_table (lower (net_type self)) of
        None \<Rightarrow> Inl KeyError
      | Some preamble \<Rightarrow>
          (case layers_loop table (net_type self) 0 (net_layers self)
                  ([nl, tab] @ ''def __init__(self):'' @ [nl, nl, tab] @ ''super().__init__()'', None) of
             Inl e \<Rightarrow> Inl e
           | Inr (layers, iv) \<Rightarrow>
               Inr (preamble @ [nl, nl] @ ''class '' @ net_name self @ ''(nn.Module):'' @ layers, iv)))"

text \<open>
  Lines 146 to 151: the loop over the edges of one instance. The accumulator
  \<^verbatim>\<open>in_\<close> of the source is \<open>in_acc\<close> here.
\<close>

fun edges_loop :: "string \<Rightarrow> edge list \<Rightarrow> string \<times> string \<Rightarrow> error + (string \<times> string)" where
  "edges_loop ty [] st = Inr st"
| "edges_loop ty (None # rest) (in_acc, out) = edges_loop ty rest (in_acc @ ''input,'', out)"
| "edges_loop ty (Some (layer, None) # rest) (in_acc, out) =
     edges_loop ty rest (in_acc @ py_str layer @ '','', out)"
| "edges_loop ty (Some (layer, Some activation) # rest) (in_acc, out) =
     (case activations (lower ty) of
        None \<Rightarrow> Inl KeyError
      | Some table \<Rightarrow>
          (case table (lower activation) of
             None \<Rightarrow> Inl KeyError
           | Some syn \<Rightarrow>
               edges_loop ty rest
                 (in_acc @ py_str layer @ '','',
                  out @ [nl, tab, tab] @ py_str layer @ '' = '' @ syn @ ''('' @ py_str layer @ '')'')))"

text \<open>Lines 144 to 152: what one pass of the outer loop appends to \<^verbatim>\<open>forward\<close>.\<close>

definition instance_stmt :: "string \<Rightarrow> nat \<Rightarrow> edge list \<Rightarrow> error + string" where
  "instance_stmt ty i inputs =
     (case edges_loop ty inputs ('''', '''') of
        Inl e \<Rightarrow> Inl e
      | Inr (in_acc, out) \<Rightarrow>
          Inr (out @ [nl, tab, tab] @ ''out_'' @ show_nat i @ '' = self.layer_'' @ show_nat i
                 @ ''('' @ in_acc @ '')''
                 @ [nl, tab, tab] @ ''self.layer_'' @ show_nat i @ ''_store(out_'' @ show_nat i @ '')''))"

fun forward_loop ::
  "string \<Rightarrow> nat \<Rightarrow> edge list list \<Rightarrow> string \<times> nat option \<Rightarrow> error + (string \<times> nat option)" where
  "forward_loop ty i [] st = Inr st"
| "forward_loop ty i (inputs # rest) (forward, iv) =
     (case instance_stmt ty i inputs of
        Inl e \<Rightarrow> Inl e
      | Inr s \<Rightarrow> forward_loop ty (Suc i) rest (forward @ s, Some i))"

definition forward_header :: string where
  "forward_header = [nl, tab] @ ''def forward(self, input):''"

definition return_stmt :: "nat \<Rightarrow> string" where
  "return_stmt i = [nl, nl, tab] @ ''return out_'' @ show_nat i"

text \<open>
  Lines 142 to 154. The last line reads \<^verbatim>\<open>i\<close>; when no loop has bound it, Python
  raises \<^verbatim>\<open>UnboundLocalError\<close>.
\<close>

definition forward_block :: "string \<Rightarrow> nat option \<Rightarrow> edge list list \<Rightarrow> error + string" where
  "forward_block ty iv graph =
     (case forward_loop ty 0 graph (forward_header, iv) of
        Inl e \<Rightarrow> Inl e
      | Inr (forward, iv') \<Rightarrow>
          (case iv' of
             None \<Rightarrow> Inl UnboundLocalError
           | Some i \<Rightarrow> Inr (forward @ return_stmt i)))"

text \<open>Lines 133 to 163: the text handed to \<^verbatim>\<open>_overwrite\<close>.\<close>

definition program :: "layer list \<Rightarrow> network \<Rightarrow> error + string" where
  "program table self =
     (case declaration_block table self of
        Inl e \<Rightarrow> Inl e
      | Inr (network, iv) \<Rightarrow>
          (case forward_block (net_type self) iv (net_graph self) of
             Inl e \<Rightarrow> Inl e
           | Inr forward \<Rightarrow>
               Inr (network @ forward @ [nl, nl, nl] @ ''def train():''
                      @ [nl, nl, nl] @ ''def test():'')))"

text \<open>
  The files are a map from path to content. \<^verbatim>\<open>_overwrite\<close> reads
  \<^verbatim>\<open>self.interpreter_path\<close> first; then \<^verbatim>\<open>open\<close> in write mode creates or
  empties the file and \<^verbatim>\<open>truncate(0)\<close> empties it again. \<^verbatim>\<open>write\<close> encodes the
  whole text before it puts anything into the file: a character outside the encoding of
  the file raises \<^verbatim>\<open>UnicodeEncodeError\<close> and leaves the emptied file behind. The
  encoding is that of the environment, given as the set \<open>enc\<close> of the characters it
  can encode. Failures of the operating system (a path that cannot be opened, a full
  disk) are outside the model.
\<close>

type_synonym files = "string \<rightharpoonup> string"

definition Network_overwrite ::
  "(char \<Rightarrow> bool) \<Rightarrow> network \<Rightarrow> string \<Rightarrow> files \<Rightarrow> (error + unit) \<times> files" where
  "Network_overwrite enc self code fs =
     (case interpreter_path self of
        None \<Rightarrow> (Inl AttributeError, fs)
      | Some path \<Rightarrow>
          (let opened = fs(path \<mapsto> '''');
               truncated = opened(path \<mapsto> '''')
           in if list_all enc code
              then (Inr (), truncated(path \<mapsto> code))
              else (Inl UnicodeEncodeError, truncated)))"

definition Network_construct ::
  "(char \<Rightarrow> bool) \<Rightarrow> layer list \<Rightarrow> network \<Rightarrow> files \<Rightarrow> (error + unit) \<times> files" where
  "Network_construct enc table self fs =
     (case program table self of
        Inl e \<Rightarrow> (Inl e, fs)
      | Inr network \<Rightarrow> Network_overwrite enc self network fs)"

text \<open>The ASCII encoding: code points below 128.\<close>

definition ascii_char :: "char \<Rightarrow> bool" where
  "ascii_char c = ((of_char c :: nat) < 128)"

section \<open>Vocabulary of the properties\<close>

text \<open>
  The parameters that pass the whitelist, in the order of the mapping, and the text one
  of them contributes.
\<close>

definition kept_parameters :: "json list \<Rightarrow> (string \<times> pyval) list \<Rightarrow> (string \<times> pyval) list" where
  "kept_parameters possible ps = filter (\<lambda>kv. JStr (fst kv) \<in> set possible) ps"

definition binding_text :: "string \<times> pyval \<Rightarrow> string" where
  "binding_text kv = fst kv @ ''='' @ py_str (snd kv) @ '',''"

text \<open>The argument one edge contributes to the call of its instance.\<close>

fun edge_arg :: "edge \<Rightarrow> string" where
  "edge_arg None = ''input,''"
| "edge_arg (Some (layer, activation)) = py_str layer @ '',''"

text \<open>An edge whose activation, if it names one, is in the table of the backend.\<close>

fun activation_ok :: "string \<Rightarrow> edge \<Rightarrow> bool" where
  "activation_ok ty None = True"
| "activation_ok ty (Some (layer, None)) = True"
| "activation_ok ty (Some (layer, Some activation)) =
     (case activations (lower ty) of None \<Rightarrow> False | Some table \<Rightarrow> table (lower activation) \<noteq> None)"

section \<open>Sample templates and networks\<close>

text \<open>
  A template whose schema entries are pairs of a name and a type, and a record store
  that holds it.
\<close>

definition dense :: layer where
  "dense = \<lparr>layer_id = ''l-1'', layer_name = ''Dense'',
     layer_parameters = Some (JObj [(''pytorch'', JArr [JArr [JStr ''units'', JStr ''int'']]),
                                    (''tensorflow'', JArr [JArr [JStr ''units'', JStr ''int'']]),
                                    (''pennylane'', JArr [])]),
     layer_pytorch = Some ''nn.Linear'', layer_pennylane = Some ''qml.Dense'',
     layer_tensorflow = Some ''tf.Dense''\<rparr>"

definition stored_layers :: "layer list" where
  "stored_layers = [dense]"

definition over_specified :: "(string \<times> pyval) list" where
  "over_specified = [(''units'', PInt 10), (''bias'', PBool True)]"

definition empty_net :: network where
  "empty_net = \<lparr>net_id = ''n-0'', net_name = ''Empty'', net_type = ''PyTorch'', net_graph = [],
     net_layers = [], net_loss = None, net_weights = None, interpreter_path = Some ''n-0.py''\<rparr>"

definition dense_net :: network where
  "dense_net = \<lparr>net_id = ''n-1'', net_name = ''One'', net_type = ''pytorch'', net_graph = [ [None] ],
     net_layers = [(''Dense'', over_specified)], net_loss = None, net_weights = None,
     interpreter_path = Some ''n-1.py''\<rparr>"

definition tensorflow_net :: network where
  "tensorflow_net = \<lparr>net_id = ''n-2'', net_name = ''Two'', net_type = ''tensorflow'',
     net_graph = [ [None] ], net_layers = [(''Dense'', over_specified)], net_loss = None,
     net_weights = None, interpreter_path = Some ''n-2.py''\<rparr>"

text \<open>
  A network without instances whose name ends in the code point \<open>0xE9\<close>, which the
  ASCII encoding does not have.
\<close>

definition accent_net :: network where
  "accent_net = \<lparr>net_id = ''n-4'', net_name = ''Caf'' @ [CHR 0xE9], net_type = ''pytorch'',
     net_graph = [ [None] ], net_layers = [], net_loss = None, net_weights = None,
     interpreter_path = Some ''n-4.py''\<rparr>"

text \<open>A network with the attributes the class declares and no others.\<close>

definition declared_net :: "string \<Rightarrow> network" where
  "declared_net ident = \<lparr>net_id = ident, net_name = ''Declared'', net_type = ''pytorch'',
     net_graph = [ [None] ], net_layers = [], net_loss = None, net_weights = None,
     interpreter_path = None\<rparr>"

definition chain_graph :: "edge list list" where
  "chain_graph = [ [None], [Some (PStr ''out_0'', Some ''relu'')] ]"

text \<open>A self-loop at position \<open>0\<close> and a source index beyond the two instances.\<close>

definition loop_graph :: "edge list list" where
  "loop_graph = [ [Some (PInt 0, None)], [Some (PInt 7, None)] ]"

text \<open>An activation that the table of no backend holds.\<close>

definition tanh_graph :: "edge list list" where
  "tanh_graph = [ [None], [Some (PStr ''out_0'', Some ''tanh'')] ]"

definition mixed_edges :: "edge list" where
  "mixed_edges = [Some (PStr ''out_0'', Some ''ReLU''), None]"

section \<open>The loops as folds\<close>

lemmas sample_defs = dense_def stored_layers_def over_specified_def empty_net_def
  dense_net_def tensorflow_net_def accent_net_def declared_net_def chain_graph_def
  loop_graph_def tanh_graph_def mixed_edges_def

lemmas model_defs = Layer_construct_def possible_parameters_def construct_head_def Layer_store_def
  pytorch_def tensorflow_def pennylane_def imports_table_def activations_def
  lower_def lower_char_def show_nat.simps digit_char_def
  Layer_objects_get_def layer_fields_def field_value_def truthy_def
  instance_stmt_def forward_block_def forward_header_def return_stmt_def
  declaration_block_def program_def Network_overwrite_def Network_construct_def network_path_def

lemma bind_parameters_eq:
  "bind_parameters possible ps layer = layer @ concat (map binding_text (kept_parameters possible ps))"
  by (induction ps arbitrary: layer) (auto simp: kept_parameters_def binding_text_def)

lemma kept_keys:
  "map fst (kept_parameters possible ps) = filter (\<lambda>k. JStr k \<in> set possible) (map fst ps)"
  by (induction ps) (auto simp: kept_parameters_def)

lemma edges_loop_args:
  "edges_loop ty inputs (a, out) = Inr (a', out') \<Longrightarrow> a' = a @ concat (map edge_arg inputs)"
  by (induction ty inputs "(a, out)" arbitrary: a out rule: edges_loop.induct)
     (auto split: option.splits)

lemma edges_loop_ok:
  "(\<exists>r. edges_loop ty inputs st = Inr r) \<longleftrightarrow> (\<forall>e\<in>set inputs. activation_ok ty e)"
  by (induction ty inputs st rule: edges_loop.induct) (auto split: option.splits)

lemma instance_stmt_ok:
  "(\<exists>s. instance_stmt ty i inputs = Inr s) \<longleftrightarrow> (\<forall>e\<in>set inputs. activation_ok ty e)"
  using edges_loop_ok [of ty inputs "('''', '''')"]
  by (auto simp: instance_stmt_def split: sum.splits)

text \<open>
  A pass of the outer loop that ends normally has appended one statement block per
  instance, numbered from the start index, and has left \<^verbatim>\<open>i\<close> at the last index.
\<close>

lemma forward_loop_Inr:
  "forward_loop ty k graph (fwd, iv) = Inr (fwd', iv') \<Longrightarrow>
     \<exists>stmts. length stmts = length graph \<and>
       (\<forall>j<length graph. instance_stmt ty (k + j) (graph ! j) = Inr (stmts ! j)) \<and>
       fwd' = fwd @ concat stmts \<and>
       iv' = (if graph = [] then iv else Some (k + length graph - 1))"
proof (induction graph arbitrary: k fwd iv)
  case Nil
  then show ?case by simp
next
  case (Cons inputs rest)
  from Cons.prems obtain s where s: "instance_stmt ty k inputs = Inr s"
    and rec: "forward_loop ty (Suc k) rest (fwd @ s, Some k) = Inr (fwd', iv')"
    by (auto split: sum.splits)
  from Cons.IH [OF rec] obtain stmts where st: "length stmts = length rest"
    "\<forall>j<length rest. instance_stmt ty (Suc k + j) (rest ! j) = Inr (stmts ! j)"
    "fwd' = (fwd @ s) @ concat stmts"
    "iv' = (if rest = [] then Some k else Some (Suc k + length rest - 1))"
    by blast
  have "\<forall>j<length (inputs # rest). instance_stmt ty (k + j) ((inputs # rest) ! j) = Inr ((s # stmts) ! j)"
  proof (intro allI impI)
    fix j assume "j < length (inputs # rest)"
    then show "instance_stmt ty (k + j) ((inputs # rest) ! j) = Inr ((s # stmts) ! j)"
      using s st(2) by (cases j) auto
  qed
  moreover have "length (s # stmts) = length (inputs # rest)" using st(1) by simp
  moreover have "fwd' = fwd @ concat (s # stmts)" using st(3) by simp
  moreover have "iv' = (if inputs # rest = [] then iv else Some (k + length (inputs # rest) - 1))"
    using st(4) by (cases rest) auto
  ultimately show ?case by blast
qed

lemma forward_loop_ok:
  "(\<exists>r. forward_loop ty k graph st = Inr r)
     \<longleftrightarrow> (\<forall>inputs\<in>set graph. \<forall>e\<in>set inputs. activation_ok ty e)"
proof (induction graph arbitrary: k st)
  case Nil
  then show ?case by simp
next
  case (Cons inputs rest)
  obtain fwd iv where st: "st = (fwd, iv)" by (cases st)
  show ?case
  proof (cases "instance_stmt ty k inputs")
    case (Inl e)
    with instance_stmt_ok [of ty k inputs] st show ?thesis by auto
  next
    case (Inr s)
    with instance_stmt_ok [of ty k inputs] st Cons.IH [of "Suc k" "(fwd @ s, Some k)"]
    show ?thesis by auto
  qed
qed

text \<open>The statement block of an instance, as text.\<close>

lemma instance_stmt_shape:
  assumes "instance_stmt ty i inputs = Inr s"
  shows "\<exists>out. s = out @ [nl, tab, tab] @ ''out_'' @ show_nat i @ '' = self.layer_'' @ show_nat i
                  @ ''('' @ concat (map edge_arg inputs) @ '')''
                  @ [nl, tab, tab] @ ''self.layer_'' @ show_nat i @ ''_store(out_'' @ show_nat i @ '')''"
  using assms edges_loop_args [of ty inputs "''''" "''''"]
  by (auto simp: instance_stmt_def split: sum.splits)

text \<open>The only error of the forward loops is the \<^verbatim>\<open>KeyError\<close> of a table lookup.\<close>

lemma edges_loop_Inl: "edges_loop ty inputs st = Inl e \<Longrightarrow> e = KeyError"
  by (induction ty inputs st rule: edges_loop.induct) (auto split: option.splits)

lemma instance_stmt_Inl: "instance_stmt ty i inputs = Inl e \<Longrightarrow> e = KeyError"
  by (auto simp: instance_stmt_def split: sum.splits dest: edges_loop_Inl)

lemma forward_loop_Inl: "forward_loop ty k graph st = Inl e \<Longrightarrow> e = KeyError"
proof (induction graph arbitrary: k st)
  case Nil
  then show ?case by simp
next
  case (Cons inputs rest)
  obtain fwd iv where st: "st = (fwd, iv)" by (cases st)
  show ?case
  proof (cases "instance_stmt ty k inputs")
    case (Inl e')
    with Cons.prems st instance_stmt_Inl [of ty k inputs e'] show ?thesis by simp
  next
    case (Inr s)
    with Cons.prems st Cons.IH [of "Suc k" "(fwd @ s, Some k)"] show ?thesis by simp
  qed
qed

text \<open>
  The query of line 137 names \<^verbatim>\<open>type\<close>, which is no field of \<^verbatim>\<open>Layer\<close>: the
  first pass of the declaration loop ends there.
\<close>

lemma layers_loop_FieldError:
  "layers \<noteq> [] \<Longrightarrow> layers_loop table ty i layers st = Inl FieldError"
  by (cases layers; cases st) (auto simp: Layer_objects_get_def layer_fields_def)

section \<open>The parameter binder\<close>



text \<open>
  Claim C2 (the opening is the backend's own construction syntax). The code departs from
  it on two of the three backends: for tensorflow the expression opens with the pennylane
  syntax of the template, and for pennylane the call raises \<^verbatim>\<open>ValueError\<close>. The
  second \<^verbatim>\<open>elif\<close> of the source tests tensorflow a second time, so the branch that
  reads the tensorflow syntax is never taken.
\<close>

theorem Layer_construct_backend_mixup:
  "Layer_construct dense over_specified tensorflow = Inr ''qml.Dense(units=10,)'' \<and>
   Layer_construct dense over_specified pennylane = Inl ValueError"
  by (simp add: sample_defs model_defs)

section \<open>The forward routine\<close>



text \<open>
  Claim C4 as stated asks for the external-input symbols first and for the bound output
  name of the source instance on each internal edge. The code keeps one accumulator for
  both kinds of edge: with an internal edge listed before an external one, the internal
  argument comes first; and an edge whose source is the index \<open>0\<close> contributes the
  text \<open>0\<close>, not \<open>out_0\<close>.
\<close>

theorem instance_stmt_external_not_first:
  "instance_stmt pytorch 1 [Some (PStr ''out_0'', None), None] =
     Inr ([nl, tab, tab] @ ''out_1 = self.layer_1(out_0,input,)''
          @ [nl, tab, tab] @ ''self.layer_1_store(out_1)'') \<and>
   instance_stmt pytorch 1 [Some (PInt 0, None)] =
     Inr ([nl, tab, tab] @ ''out_1 = self.layer_1(0,)''
          @ [nl, tab, tab] @ ''self.layer_1_store(out_1)'')"
  by (simp add: model_defs)

text \<open>
  Claim C4, amended. The execution statement of instance \<open>i\<close> binds \<open>out_i\<close> to a
  call of \<open>self.layer_i\<close> with one argument per edge, in the order of the edges,
  external and internal ones interleaved as they are listed: an external edge contributes
  the symbol \<open>input\<close>, an internal edge contributes its source component as it is
  stored, rendered as text.
\<close>

theorem instance_stmt_arguments_edge_order:
  assumes "instance_stmt ty i inputs = Inr s"
  shows "\<exists>out. s = out @ [nl, tab, tab] @ ''out_'' @ show_nat i @ '' = self.layer_'' @ show_nat i
                  @ ''('' @ concat (map edge_arg inputs) @ '')''
                  @ [nl, tab, tab] @ ''self.layer_'' @ show_nat i @ ''_store(out_'' @ show_nat i @ '')''"
  using assms edges_loop_args [of ty inputs "''''" "''''"]
  by (auto simp: instance_stmt_def split: sum.splits)

theorem instance_stmt_arguments_edge_order_witness:
  "instance_stmt pytorch 1 mixed_edges =
     Inr ([nl, tab, tab] @ ''out_0 = nn.ReLu()(out_0)''
          @ [nl, tab, tab] @ ''out_1 = self.layer_1(out_0,input,)''
          @ [nl, tab, tab] @ ''self.layer_1_store(out_1)'') \<and>
   (\<exists>out. [nl, tab, tab] @ ''out_0 = nn.ReLu()(out_0)''
          @ [nl, tab, tab] @ ''out_1 = self.layer_1(out_0,input,)''
          @ [nl, tab, tab] @ ''self.layer_1_store(out_1)''
        = out @ [nl, tab, tab] @ ''out_'' @ show_nat 1 @ '' = self.layer_'' @ show_nat 1
            @ ''('' @ concat (map edge_arg mixed_edges) @ '')''
            @ [nl, tab, tab] @ ''self.layer_'' @ show_nat 1 @ ''_store(out_'' @ show_nat 1 @ '')'')"
proof -
  have h: "instance_stmt pytorch 1 mixed_edges =
     Inr ([nl, tab, tab] @ ''out_0 = nn.ReLu()(out_0)''
          @ [nl, tab, tab] @ ''out_1 = self.layer_1(out_0,input,)''
          @ [nl, tab, tab] @ ''self.layer_1_store(out_1)'')"
    by (simp add: sample_defs model_defs)
  from instance_stmt_arguments_edge_order [OF h] h show ?thesis by blast
qed

text \<open>
  Claim C6 as stated asks for a failure on an edge whose source index is not smaller than
  its own position or is out of range. The forward routine of \<open>loop_graph\<close>, which has
  a self-loop at position \<open>0\<close> and the source index \<open>7\<close> among two instances, is
  produced without any error.
\<close>

theorem forward_block_accepts_self_loop:
  "forward_block pytorch None loop_graph =
     Inr ([nl, tab] @ ''def forward(self, input):''
          @ [nl, tab, tab] @ ''out_0 = self.layer_0(0,)''
          @ [nl, tab, tab] @ ''self.layer_0_store(out_0)''
          @ [nl, tab, tab] @ ''out_1 = self.layer_1(7,)''
          @ [nl, tab, tab] @ ''self.layer_1_store(out_1)''
          @ [nl, nl, tab] @ ''return out_1'')"
  by (simp add: sample_defs model_defs)

text \<open>
  Claim C6, amended. The compile pass does not check the source of an edge. For a graph
  that is not empty there are two cases. When every activation named on an edge is in the
  activation table of the backend, the forward routine is produced, and the call of each
  instance lists one argument per edge, an internal edge giving its source component as
  it is stored, rendered as text: a self-loop, a forward reference or an index out of
  range is accepted like any other source. Otherwise the routine fails with
  \<^verbatim>\<open>KeyError\<close>. No other failure exists.
\<close>

theorem forward_block_fails_only_on_activation:
  assumes "graph \<noteq> []"
  shows "if list_all (list_all (activation_ok ty)) graph
         then \<exists>stmts. length stmts = length graph \<and>
                (\<forall>j<length graph. \<exists>out. stmts ! j =
                   out @ [nl, tab, tab] @ ''out_'' @ show_nat j @ '' = self.layer_'' @ show_nat j
                     @ ''('' @ concat (map edge_arg (graph ! j)) @ '')''
                     @ [nl, tab, tab] @ ''self.layer_'' @ show_nat j
                     @ ''_store(out_'' @ show_nat j @ '')'') \<and>
                forward_block ty iv graph =
                  Inr ([nl, tab] @ ''def forward(self, input):'' @ concat stmts
                       @ [nl, nl, tab] @ ''return out_'' @ show_nat (length graph - 1))
         else forward_block ty iv graph = Inl KeyError"
proof (cases "list_all (list_all (activation_ok ty)) graph")
  case True
  then have "\<forall>inputs\<in>set graph. \<forall>e\<in>set inputs. activation_ok ty e"
    by (simp add: list_all_iff)
  then obtain fwd iv' where loop: "forward_loop ty 0 graph (forward_header, iv) = Inr (fwd, iv')"
    using forward_loop_ok [of ty 0 graph "(forward_header, iv)"] by auto
  from forward_loop_Inr [OF loop] obtain stmts where st: "length stmts = length graph"
    "\<forall>j<length graph. instance_stmt ty (0 + j) (graph ! j) = Inr (stmts ! j)"
    "fwd = forward_header @ concat stmts"
    "iv' = (if graph = [] then iv else Some (0 + length graph - 1))"
    by blast
  from st(4) assms have iv': "iv' = Some (length graph - 1)" by simp
  have "\<forall>j<length graph. \<exists>out. stmts ! j =
          out @ [nl, tab, tab] @ ''out_'' @ show_nat j @ '' = self.layer_'' @ show_nat j
            @ ''('' @ concat (map edge_arg (graph ! j)) @ '')''
            @ [nl, tab, tab] @ ''self.layer_'' @ show_nat j
            @ ''_store(out_'' @ show_nat j @ '')''"
    using st(2) instance_stmt_shape by fastforce
  moreover have "forward_block ty iv graph =
      Inr ([nl, tab] @ ''def forward(self, input):'' @ concat stmts
           @ [nl, nl, tab] @ ''return out_'' @ show_nat (length graph - 1))"
    using loop st(3) iv' by (simp add: forward_block_def forward_header_def return_stmt_def)
  ultimately show ?thesis using True st(1) by auto
next
  case False
  then have nok: "\<not> (\<forall>inputs\<in>set graph. \<forall>e\<in>set inputs. activation_ok ty e)"
    by (simp add: list_all_iff)
  have "\<exists>e. forward_loop ty 0 graph (forward_header, iv) = Inl e"
  proof (cases "forward_loop ty 0 graph (forward_header, iv)")
    case (Inl e)
    then show ?thesis by blast
  next
    case (Inr r)
    with forward_loop_ok [of ty 0 graph "(forward_header, iv)"] nok show ?thesis by blast
  qed
  then obtain e where e: "forward_loop ty 0 graph (forward_header, iv) = Inl e" ..
  from forward_loop_Inl [OF e] e have "forward_block ty iv graph = Inl KeyError"
    by (simp add: forward_block_def)
  with False show ?thesis by simp
qed

text \<open>
  Both cases: \<open>loop_graph\<close> names no activation and is accepted with its sources
  \<open>0\<close> and \<open>7\<close>; \<open>tanh_graph\<close> names an activation outside the table and is
  refused.
\<close>

theorem forward_block_fails_only_on_activation_witness:
  "loop_graph \<noteq> [] \<and> list_all (list_all (activation_ok pytorch)) loop_graph \<and>
   (\<exists>stmts. length stmts = length loop_graph \<and>
      (\<forall>j<length loop_graph. \<exists>out. stmts ! j =
         out @ [nl, tab, tab] @ ''out_'' @ show_nat j @ '' = self.layer_'' @ show_nat j
           @ ''('' @ concat (map edge_arg (loop_graph ! j)) @ '')''
           @ [nl, tab, tab] @ ''self.layer_'' @ show_nat j
           @ ''_store(out_'' @ show_nat j @ '')'') \<and>
      forward_block pytorch None loop_graph =
        Inr ([nl, tab] @ ''def forward(self, input):'' @ concat stmts
             @ [nl, nl, tab] @ ''return out_'' @ show_nat (length loop_graph - 1))) \<and>
   tanh_graph \<noteq> [] \<and> \<not> list_all (list_all (activation_ok pytorch)) tanh_graph \<and>
   forward_block pytorch None tanh_graph = Inl KeyError"
proof -
  have ne: "loop_graph \<noteq> []" and ne': "tanh_graph \<noteq> []"
    by (simp_all add: loop_graph_def tanh_graph_def)
  have ok: "list_all (list_all (activation_ok pytorch)) loop_graph"
    by (simp add: loop_graph_def)
  have nok: "\<not> list_all (list_all (activation_ok pytorch)) tanh_graph"
    by (simp add: sample_defs model_defs)
  from forward_block_fails_only_on_activation [OF ne, of pytorch None]
       forward_block_fails_only_on_activation [OF ne', of pytorch None] ne ne' ok nok
  show ?thesis by simp
qed

section \<open>The compile pass\<close>

text \<open>
  Claim C5 as stated asks for an error of the kind EmptyGraph. The code has no such kind:
  on a network without instances and with an empty graph the pytorch compile ends in the
  \<^verbatim>\<open>UnboundLocalError\<close> of the return line.
\<close>

theorem Network_construct_empty_unbound:
  "net_layers empty_net = [] \<and> net_graph empty_net = [] \<and>
   Network_construct ascii_char stored_layers empty_net Map.empty
     = (Inl UnboundLocalError, Map.empty)"
  by (simp add: sample_defs model_defs)

text \<open>
  Claim C5, amended. Compiling a network with no instance and an empty graph always fails
  and leaves the files as they were, so no return statement is emitted: with
  \<^verbatim>\<open>KeyError\<close> when the backend has no import preamble, and otherwise with
  \<^verbatim>\<open>UnboundLocalError\<close>, since no loop has bound \<^verbatim>\<open>i\<close>.
\<close>

theorem Network_construct_empty:
  assumes "net_layers self = []" and "net_graph self = []"
  shows "Network_construct enc table self fs =
           (Inl (if imports_table (lower (net_type self)) = None then KeyError
                 else UnboundLocalError), fs)"
  using assms
  by (auto simp: Network_construct_def program_def declaration_block_def forward_block_def
           split: option.splits)

theorem Network_construct_empty_witness:
  "net_layers empty_net = [] \<and> net_graph empty_net = [] \<and>
   Network_construct ascii_char stored_layers empty_net [''n-0.py'' \<mapsto> ''old''] =
     (Inl UnboundLocalError, [''n-0.py'' \<mapsto> ''old''])"
proof -
  have l: "net_layers empty_net = []" and g: "net_graph empty_net = []"
    by (simp_all add: empty_net_def)
  have "imports_table (lower (net_type empty_net)) \<noteq> None"
    by (simp add: sample_defs model_defs)
  with Network_construct_empty [OF l g, of ascii_char stored_layers "[''n-0.py'' \<mapsto> ''old'']"] l g
  show ?thesis by simp
qed

text \<open>
  Claim C7 as stated has every failure before the write begins and the artifact
  untouched by a failed pass. The text of \<open>accent_net\<close> is generated in full; the file
  is opened, which empties it, and the write then fails on the name of the network under
  the ASCII encoding: the pass ends in \<^verbatim>\<open>UnicodeEncodeError\<close> and the old artifact
  is gone.
\<close>

theorem Network_construct_write_failure_empties:
  "Network_construct ascii_char stored_layers accent_net [''n-4.py'' \<mapsto> ''old'']
     = (Inl UnicodeEncodeError, [''n-4.py'' \<mapsto> '''']) \<and>
   [''n-4.py'' \<mapsto> ''''] ''n-4.py'' \<noteq> [''n-4.py'' \<mapsto> ''old''] ''n-4.py''"
  by (simp add: sample_defs model_defs ascii_char_def nl_def tab_def)

text \<open>
  Claim C7, amended. A compile pass fails in one of three ways. The generation of the
  text fails: nothing has been opened and the files are as they were. The text is
  generated and the network has no path attribute: \<^verbatim>\<open>AttributeError\<close>, raised before
  the file is opened, and the files are as they were. The text is generated, the file is
  opened and emptied, and the write fails on a character outside the encoding:
  \<^verbatim>\<open>UnicodeEncodeError\<close>, and the artifact is left empty. So every failure of the
  generation precedes the write, and no partial program is ever left in the file; only
  the failure of the write itself costs the old content.
\<close>

theorem Network_construct_failure_files:
  assumes "Network_construct enc table self fs = (Inl e, fs')"
  shows "(program table self = Inl e \<and> fs' = fs) \<or>
         (\<exists>code. program table self = Inr code \<and> interpreter_path self = None \<and>
                  e = AttributeError \<and> fs' = fs) \<or>
         (\<exists>code path. program table self = Inr code \<and> interpreter_path self = Some path \<and>
                  \<not> list_all enc code \<and> e = UnicodeEncodeError \<and> fs' = fs(path \<mapsto> ''''))"
  using assms
  by (auto simp: Network_construct_def Network_overwrite_def Let_def
           split: sum.splits option.splits if_splits)

text \<open>A failure of the generation: the artifact of \<open>dense_net\<close> keeps its content.\<close>

theorem Network_construct_failure_files_witness:
  "fst (Network_construct ascii_char stored_layers dense_net [''n-1.py'' \<mapsto> ''old''])
     = Inl FieldError \<and>
   program stored_layers dense_net = Inl FieldError \<and>
   snd (Network_construct ascii_char stored_layers dense_net [''n-1.py'' \<mapsto> ''old''])
     = [''n-1.py'' \<mapsto> ''old'']"
proof -
  have f: "fst (Network_construct ascii_char stored_layers dense_net [''n-1.py'' \<mapsto> ''old''])
             = Inl FieldError"
    and p: "program stored_layers dense_net = Inl FieldError"
    by (simp_all add: sample_defs model_defs)
  from f have h: "Network_construct ascii_char stored_layers dense_net [''n-1.py'' \<mapsto> ''old''] =
      (Inl FieldError,
       snd (Network_construct ascii_char stored_layers dense_net [''n-1.py'' \<mapsto> ''old'']))"
    by (metis prod.collapse)
  from Network_construct_failure_files [OF h] p
  have "snd (Network_construct ascii_char stored_layers dense_net [''n-1.py'' \<mapsto> ''old''])
          = [''n-1.py'' \<mapsto> ''old'']"
    by auto
  with f p show ?thesis by simp
qed

text \<open>
  Claim C8 (a location keyed by the identifier of the network). The code does not reach
  it. \<^verbatim>\<open>network_path\<close> is one value for the whole class, the same for two networks
  with different identifiers, and \<^verbatim>\<open>_overwrite\<close> does not read it: it reads
  \<^verbatim>\<open>self.interpreter_path\<close>, which the class never defines, so a network with the
  declared attributes only ends in \<^verbatim>\<open>AttributeError\<close> and writes nothing.
\<close>

theorem network_path_not_keyed:
  "net_id (declared_net ''a'') \<noteq> net_id (declared_net ''b'') \<and>
   network_path parent sep field_text (declared_net ''a'')
     = network_path parent sep field_text (declared_net ''b'') \<and>
   Network_construct enc table (declared_net ''a'') fs = (Inl AttributeError, fs) \<and>
   Network_construct enc table (declared_net ''b'') fs = (Inl AttributeError, fs)"
  by (simp add: sample_defs model_defs)




end
